theory Spec2Isabelle
  imports Main
begin

section \<open>JavaScript values\<close>

text \<open>
  Both components handle untyped JavaScript data: the document returned by
  \<^verbatim>\<open>JSON.parse\<close> in the question manager, and the answers object of the exam runner.
  A value is one of the JSON shapes plus \<^verbatim>\<open>undefined\<close>. Numbers are the integer-valued
  ones; an object is the list of its own properties in enumeration order, with distinct keys.
\<close>

datatype jsval =
    JUndefined
  | JNull
  | JBool bool
  | JNum int
  | JStr string
  | JArr "jsval list"
  | JObj "(string \<times> jsval) list"

text \<open>What \<^verbatim>\<open>if (v)\<close>, \<^verbatim>\<open>!v\<close> and \<^verbatim>\<open>v || d\<close> test.\<close>

fun truthy :: "jsval \<Rightarrow> bool" where
  "truthy JUndefined = False"
| "truthy JNull = False"
| "truthy (JBool b) = b"
| "truthy (JNum n) = (n \<noteq> 0)"
| "truthy (JStr s) = (s \<noteq> [])"
| "truthy (JArr xs) = True"
| "truthy (JObj fs) = True"

text \<open>\<^verbatim>\<open>a || b\<close> on values.\<close>

definition js_or :: "jsval \<Rightarrow> jsval \<Rightarrow> jsval" where
  "js_or a b = (if truthy a then a else b)"

text \<open>
  Exceptions, with the text of their \<^verbatim>\<open>message\<close>. The wording of a \<^verbatim>\<open>TypeError\<close> and of
  a \<^verbatim>\<open>SyntaxError\<close> is the engine's; the wording of an \<^verbatim>\<open>Error\<close> is the program's.
\<close>

datatype js_exn = SyntaxError string | TypeError string | ReferenceError string | Error string

fun message :: "js_exn \<Rightarrow> string" where
  "message (SyntaxError m) = m"
| "message (TypeError m) = m"
| "message (ReferenceError m) = m"
| "message (Error m) = m"

text \<open>
  Reading a property \<^verbatim>\<open>v.p\<close>. On \<^verbatim>\<open>null\<close> and \<^verbatim>\<open>undefined\<close> it throws; on an object it is
  the own property or \<^verbatim>\<open>undefined\<close>; numbers, strings, booleans and arrays have none of the
  properties the two components read by name (\<^verbatim>\<open>text\<close>, \<^verbatim>\<open>examCategoryId\<close>, \<^verbatim>\<open>type\<close>,
  \<^verbatim>\<open>options\<close>, \<^verbatim>\<open>difficulty\<close>, \<^verbatim>\<open>marks\<close>, \<^verbatim>\<open>timeLimit\<close>, \<^verbatim>\<open>isCorrect\<close>).
\<close>

fun js_prop :: "jsval \<Rightarrow> string \<Rightarrow> jsval" where
  "js_prop (JObj fs) p = (case map_of fs p of None \<Rightarrow> JUndefined | Some v \<Rightarrow> v)"
| "js_prop v p = JUndefined"

definition quoted :: "string \<Rightarrow> string" where
  "quoted s = [CHR 0x27] @ s @ [CHR 0x27]"

fun get_prop :: "jsval \<Rightarrow> string \<Rightarrow> js_exn + jsval" where
  "get_prop JNull p =
     Inl (TypeError (''Cannot read properties of null (reading '' @ quoted p @ '')''))"
| "get_prop JUndefined p =
     Inl (TypeError (''Cannot read properties of undefined (reading '' @ quoted p @ '')''))"
| "get_prop v p = Inr (js_prop v p)"

text \<open>A number in a template literal: the decimal digits of a natural number.\<close>

definition digit_char :: "nat \<Rightarrow> char" where
  "digit_char d =
     (if d = 0 then CHR ''0'' else if d = 1 then CHR ''1'' else if d = 2 then CHR ''2''
      else if d = 3 then CHR ''3'' else if d = 4 then CHR ''4'' else if d = 5 then CHR ''5''
      else if d = 6 then CHR ''6'' else if d = 7 then CHR ''7'' else if d = 8 then CHR ''8''
      else CHR ''9'')"

fun string_of_nat :: "nat \<Rightarrow> string" where
  "string_of_nat n =
     (if n < 10 then [digit_char n]
      else string_of_nat (n div 10) @ [digit_char (n mod 10)])"

text \<open>\<^verbatim>\<open>xs.map(f)\<close> where \<^verbatim>\<open>f\<close> may throw: the first exception ends the loop.\<close>

fun map_exn :: "('a \<Rightarrow> 'e + 'b) \<Rightarrow> 'a list \<Rightarrow> 'e + 'b list" where
  "map_exn f [] = Inr []"
| "map_exn f (x # xs) =
     (case f x of
        Inl e \<Rightarrow> Inl e
      | Inr y \<Rightarrow> (case map_exn f xs of Inl e \<Rightarrow> Inl e | Inr ys \<Rightarrow> Inr (y # ys)))"

text \<open>\<^verbatim>\<open>xs.map((x, index) => f(x, index))\<close>, the index starting at \<open>i\<close>.\<close>

fun map_index_exn :: "(nat \<Rightarrow> 'a \<Rightarrow> 'e + 'b) \<Rightarrow> nat \<Rightarrow> 'a list \<Rightarrow> 'e + 'b list" where
  "map_index_exn f i [] = Inr []"
| "map_index_exn f i (x # xs) =
     (case f i x of
        Inl e \<Rightarrow> Inl e
      | Inr y \<Rightarrow> (case map_index_exn f (Suc i) xs of Inl e \<Rightarrow> Inl e | Inr ys \<Rightarrow> Inr (y # ys)))"

section \<open>Question manager: bulk insert (Questions.jsx, handleBulkInsert)\<close>

text \<open>The object built for each entry and handed to the bulk-create call.\<close>

record bulk_question =
  bq_text :: jsval
  bq_examCategoryId :: jsval
  bq_difficulty :: jsval
  bq_type :: jsval
  bq_marks :: jsval
  bq_timeLimit :: jsval
  bq_options :: jsval

datatype q_effect =
    QToastError string
  | BulkInsertMutate "bulk_question list"

text \<open>\<^verbatim>\<open>['MULTIPLE_CHOICE', 'FILL_IN_THE_BLANK'].includes(q.type)\<close>\<close>

definition has_option_list :: "jsval \<Rightarrow> bool" where
  "has_option_list ty = (ty = JStr ''MULTIPLE_CHOICE'' \<or> ty = JStr ''FILL_IN_THE_BLANK'')"

text \<open>
  \<^verbatim>\<open>option => ({ text: option.text || option, isCorrect: option.isCorrect || false })\<close>
\<close>

definition normalize_option :: "jsval \<Rightarrow> js_exn + jsval" where
  "normalize_option option =
     (case get_prop option ''text'' of
        Inl e \<Rightarrow> Inl e
      | Inr t \<Rightarrow>
          (case get_prop option ''isCorrect'' of
             Inl e \<Rightarrow> Inl e
           | Inr c \<Rightarrow>
               Inr (JObj [(''text'', js_or t option), (''isCorrect'', js_or c (JBool False))])))"

text \<open>
  \<^verbatim>\<open>q.options.map(...)\<close> on a truthy \<^verbatim>\<open>q.options\<close>: only an array has a \<^verbatim>\<open>map\<close> method.
\<close>

definition normalize_options :: "jsval \<Rightarrow> js_exn + jsval" where
  "normalize_options opts =
     (case opts of
        JArr os \<Rightarrow> (case map_exn normalize_option os of Inl e \<Rightarrow> Inl e | Inr os' \<Rightarrow> Inr (JArr os'))
      | _ \<Rightarrow> Inl (TypeError ''q.options.map is not a function''))"

definition missing_fields_message :: "nat \<Rightarrow> string" where
  "missing_fields_message index =
     ''Question '' @ string_of_nat (index + 1) @
     '' is missing required fields (text, examCategoryId, type)''"

text \<open>The callback of \<^verbatim>\<open>questions.map((q, index) => ...)\<close>.\<close>

definition validate_question :: "nat \<Rightarrow> jsval \<Rightarrow> js_exn + bulk_question" where
  "validate_question index q =
     (case get_prop q ''text'' of
        Inl e \<Rightarrow> Inl e
      | Inr txt \<Rightarrow>
          if \<not> truthy txt \<or> \<not> truthy (js_prop q ''examCategoryId'') \<or> \<not> truthy (js_prop q ''type'')
          then Inl (Error (missing_fields_message index))
          else
            (case (if has_option_list (js_prop q ''type'') \<and> truthy (js_prop q ''options'')
                   then normalize_options (js_prop q ''options'')
                   else Inr (js_prop q ''options'')) of
               Inl e \<Rightarrow> Inl e
             | Inr opts \<Rightarrow>
                 Inr \<lparr> bq_text = txt,
                       bq_examCategoryId = js_prop q ''examCategoryId'',
                       bq_difficulty = js_or (js_prop q ''difficulty'') (JStr ''EASY''),
                       bq_type = js_prop q ''type'',
                       bq_marks = js_or (js_prop q ''marks'') (JNum 1),
                       bq_timeLimit = js_or (js_prop q ''timeLimit'') (JNum 60),
                       bq_options =
                         (if has_option_list (js_prop q ''type'') then js_or opts (JArr [])
                          else JArr []) \<rparr>))"

text \<open>
  \<^verbatim>\<open>handleBulkInsert\<close>. Its argument is the outcome of \<^verbatim>\<open>JSON.parse(bulkData)\<close>: the parsed
  document, or the \<^verbatim>\<open>SyntaxError\<close> thrown on malformed text. The result is what the handler
  does: an error toast, or the one call of the bulk-create mutation.
\<close>

definition handleBulkInsert :: "js_exn + jsval \<Rightarrow> q_effect list" where
  "handleBulkInsert parsed =
     (case parsed of
        Inl e \<Rightarrow> [QToastError (''Invalid JSON format: '' @ message e)]
      | Inr questions \<Rightarrow>
          (case questions of
             JArr qs \<Rightarrow>
               (case map_index_exn validate_question 0 qs of
                  Inl e \<Rightarrow> [QToastError (''Invalid JSON format: '' @ message e)]
                | Inr validatedQuestions \<Rightarrow> [BulkInsertMutate validatedQuestions])
           | _ \<Rightarrow> [QToastError ''JSON data must be an array of questions'']))"

definition is_network_call :: "q_effect \<Rightarrow> bool" where
  "is_network_call e = (case e of BulkInsertMutate qs \<Rightarrow> True | _ \<Rightarrow> False)"

text \<open>
  The object the arrow function of \<^verbatim>\<open>q.options.map\<close> returns for an option that is not
  \<^verbatim>\<open>null\<close>.
\<close>

definition option_pair :: "jsval \<Rightarrow> jsval" where
  "option_pair option =
     JObj [(''text'', js_or (js_prop option ''text'') option),
           (''isCorrect'', js_or (js_prop option ''isCorrect'') (JBool False))]"

text \<open>
  An entry lacks a required field: it has no \<^verbatim>\<open>text\<close>, no \<^verbatim>\<open>examCategoryId\<close> or no
  \<^verbatim>\<open>type\<close>. A batch is malformed when the text did not parse, the document is not an
  array, or some entry lacks a required field.
\<close>

definition lacks_required :: "jsval \<Rightarrow> bool" where
  "lacks_required q =
     (js_prop q ''text'' = JUndefined \<or> js_prop q ''examCategoryId'' = JUndefined \<or>
      js_prop q ''type'' = JUndefined)"

definition malformed_batch :: "js_exn + jsval \<Rightarrow> bool" where
  "malformed_batch parsed =
     (case parsed of
        Inl e \<Rightarrow> True
      | Inr v \<Rightarrow> (case v of JArr qs \<Rightarrow> (\<exists>q \<in> set qs. lacks_required q) | _ \<Rightarrow> True))"

section \<open>Exam runner (ExamInterface.jsx)\<close>

subsection \<open>Data\<close>

text \<open>
  Identifiers (of questions, exams and attempts) are strings, as the keys of the answers object
  are; an absent identifier is \<open>None\<close>, and the empty string is the one falsy identifier.
  The answers object is the list of its entries as \<^verbatim>\<open>Object.entries\<close> enumerates them.
\<close>

record question =
  q_id :: string
  q_type :: string

type_synonym answers_obj = "(string \<times> jsval) list"

definition obj_get :: "(string \<times> jsval) list \<Rightarrow> string \<Rightarrow> jsval" where
  "obj_get obj k = (case map_of obj k of None \<Rightarrow> JUndefined | Some v \<Rightarrow> v)"

text \<open>\<^verbatim>\<open>{ ...obj, [k]: v }\<close> and \<^verbatim>\<open>obj[k] = v\<close>: an existing key keeps its place, a new one is added.\<close>

fun obj_set :: "string \<Rightarrow> jsval \<Rightarrow> (string \<times> jsval) list \<Rightarrow> (string \<times> jsval) list" where
  "obj_set k v [] = [(k, v)]"
| "obj_set k v ((k', v') # fs) = (if k = k' then (k, v) # fs else (k', v') # obj_set k v fs)"

text \<open>\<^verbatim>\<open>xs[i] = v\<close> on an array: beyond the end the array grows, the gap left empty.\<close>

definition arr_set :: "jsval list \<Rightarrow> nat \<Rightarrow> jsval \<Rightarrow> jsval list" where
  "arr_set xs i v =
     (if i < length xs then xs[i := v] else xs @ replicate (i - length xs) JUndefined @ [v])"

text \<open>\<^verbatim>\<open>!id\<close> is false: the identifier is there and not empty.\<close>

fun active :: "string option \<Rightarrow> bool" where
  "active None = False"
| "active (Some i) = (i \<noteq> [])"

record attempts_info =
  canTakeExam :: "bool option"
  attemptsUsed :: nat
  attemptsAllowed :: nat

record exam =
  exam_id :: "string option"
  attemptsInfo :: "attempts_info option"

text \<open>The wire format of one answer; \<open>essayAnswer = None\<close> is the field left out.\<close>

record response =
  questionId :: string
  selectedOptions :: "jsval list"
  essayAnswer :: "jsval option"
  timeSpent :: int

text \<open>What a callback given to \<^verbatim>\<open>setTimeout\<close> does when it runs.\<close>

datatype action = Navigate string | Uncaught js_exn

datatype effect =
    ToastError string
  | ToastErrorFor string nat
  | ToastSuccess string
  | ToastScore jsval nat
  | Confirm string
  | StartAttemptMutate string
  | SubmitAttemptMutate string "response list"
  | SetTimeout nat action
  | ClearInterval
  | Throw js_exn

text \<open>
  The values a \<^verbatim>\<open>handleSubmit\<close> closes over: those of the render that created it.
\<close>

record closure =
  cl_attemptId :: "string option"
  cl_answers :: answers_obj
  cl_questions :: "question list"

text \<open>
  The component state. \<open>timer\<close> is the running interval, holding the \<^verbatim>\<open>handleSubmit\<close> of the
  render in which the timer effect ran; \<open>None\<close> is no interval, or a cleared one.
\<close>

record exam_state =
  currentQuestion :: int
  answers :: answers_obj
  timeLeft :: int
  isSubmitted :: bool
  attemptId :: "string option"
  questions :: "question list"
  timer :: "closure option"

subsection \<open>Starting the attempt\<close>

text \<open>
  The effect on \<^verbatim>\<open>[exam.id, attemptId, exam.attemptsInfo, navigate]\<close> (lines 162 to 182).
\<close>

definition exceeded_message :: "attempts_info \<Rightarrow> string" where
  "exceeded_message ai =
     ''You have used all '' @ string_of_nat (attemptsUsed ai) @ ''/'' @
     string_of_nat (attemptsAllowed ai) @
     '' attempts for this exam. No more attempts allowed.''"

definition attempt_start_effect :: "exam \<Rightarrow> string option \<Rightarrow> effect list" where
  "attempt_start_effect ex aid =
     (case exam_id ex of
        None \<Rightarrow> []
      | Some eid \<Rightarrow>
          if eid \<noteq> [] \<and> \<not> active aid then
            (case attemptsInfo ex of
               None \<Rightarrow> [StartAttemptMutate eid]
             | Some ai \<Rightarrow>
                 if canTakeExam ai \<noteq> Some True
                 then [ToastErrorFor (exceeded_message ai) 5000,
                       SetTimeout 3000 (Navigate ''/student/tests'')]
                 else [StartAttemptMutate eid])
          else [])"

text \<open>The early returns of the render function, in their order (lines 259 to 546).\<close>

datatype view =
  ErrorView | LoadingView | ExceededView | SubmittedView | PreparingView | QuestionView

definition render_view :: "bool \<Rightarrow> bool \<Rightarrow> exam \<Rightarrow> exam_state \<Rightarrow> view" where
  "render_view examError examLoading ex s =
     (if examError then ErrorView
      else if examLoading then LoadingView
      else if (case attemptsInfo ex of None \<Rightarrow> False | Some ai \<Rightarrow> canTakeExam ai \<noteq> Some True)
        then ExceededView
      else if isSubmitted s then SubmittedView
      else if questions s = [] \<or> currentQuestion s < 0
              \<or> int (length (questions s)) \<le> currentQuestion s
        then PreparingView
      else QuestionView)"

text \<open>
  \<^verbatim>\<open>startAttemptMutation.onSuccess\<close> (lines 77 to 98). The response carries the attempt's
  identifier and its duration in minutes, either of which may be absent, and the questions.
\<close>

record start_response =
  sr_attempt_id :: "string option"
  sr_duration :: "int option"
  sr_questions :: "question list"

text \<open>
  \<^verbatim>\<open>duration * 60 || 3600\<close>: an absent duration makes the product \<^verbatim>\<open>NaN\<close>, which is falsy, as
  the product 0 is.
\<close>

definition initial_timeLeft :: "int option \<Rightarrow> int" where
  "initial_timeLeft duration =
     (case duration of
        None \<Rightarrow> 3600
      | Some d \<Rightarrow> if d * 60 \<noteq> 0 then d * 60 else 3600)"

definition start_onSuccess :: "start_response \<Rightarrow> exam_state \<Rightarrow> exam_state \<times> effect list" where
  "start_onSuccess r s =
     (s\<lparr> attemptId := sr_attempt_id r,
         timeLeft := initial_timeLeft (sr_duration r),
         questions := (if length (sr_questions r) > 0 then sr_questions r else questions s) \<rparr>,
      [ToastSuccess ''Exam started successfully!''])"

subsection \<open>Submitting\<close>

text \<open>\<^verbatim>\<open>Array.isArray(answer) ? answer : [answer]\<close>\<close>

fun to_array :: "jsval \<Rightarrow> jsval list" where
  "to_array (JArr xs) = xs"
| "to_array v = [v]"

text \<open>\<^verbatim>\<open>questions.find(q => q.id === questionId)\<close>\<close>

definition find_question :: "question list \<Rightarrow> string \<Rightarrow> question option" where
  "find_question qs key = find (\<lambda>q. q_id q = key) qs"

text \<open>\<^verbatim>\<open>currentQuestion?.type === 'ESSAY' || currentQuestion?.type === 'SHORT_ANSWER'\<close>\<close>

definition is_text_question :: "question option \<Rightarrow> bool" where
  "is_text_question cq =
     (case cq of None \<Rightarrow> False | Some q \<Rightarrow> q_type q = ''ESSAY'' \<or> q_type q = ''SHORT_ANSWER'')"

definition to_response :: "question list \<Rightarrow> string \<times> jsval \<Rightarrow> response" where
  "to_response qs entry =
     (case entry of (key, answer) \<Rightarrow>
        if is_text_question (find_question qs key)
        then \<lparr> questionId = key, selectedOptions = [], essayAnswer = Some answer,
               timeSpent = 0 \<rparr>
        else \<lparr> questionId = key, selectedOptions = to_array answer, essayAnswer = None,
               timeSpent = 0 \<rparr>)"

definition build_responses :: "question list \<Rightarrow> answers_obj \<Rightarrow> response list" where
  "build_responses qs ans = map (to_response qs) ans"

text \<open>The confirmation summary; the two pictographs are written as their UTF-8 bytes.\<close>

definition confirmMessage :: "answers_obj \<Rightarrow> question list \<Rightarrow> string" where
  "confirmMessage ans qs =
     (let answeredCount = length ans;
          totalQuestions = length qs;
          unansweredCount = int totalQuestions - int answeredCount
      in ''Are you sure you want to submit your exam?'' @ [CHR 0x0A, CHR 0x0A] @
         [CHR 0xF0, CHR 0x9F, CHR 0x93, CHR 0x8A] @ '' Progress: '' @
         string_of_nat answeredCount @ ''/'' @ string_of_nat totalQuestions @
         '' questions answered'' @
         (if unansweredCount > 0
          then [CHR 0x0A] @ [CHR 0xE2, CHR 0x9A, CHR 0xA0, CHR 0xEF, CHR 0xB8, CHR 0x8F] @ '' '' @
               string_of_nat (nat unansweredCount) @ '' question(s) unanswered''
          else []) @
         [CHR 0x0A, CHR 0x0A] @ ''This action cannot be undone.'')"

text \<open>
  \<^verbatim>\<open>handleSubmit\<close> (lines 208 to 256) over the values it closes over. \<open>confirm\<close> is the user's
  answer to \<^verbatim>\<open>window.confirm\<close> showing the given message. Console output is left out.
\<close>

definition handleSubmit :: "(string \<Rightarrow> bool) \<Rightarrow> closure \<Rightarrow> effect list" where
  "handleSubmit confirm cl =
     (case cl_attemptId cl of
        None \<Rightarrow> [ToastError ''No active exam attempt'']
      | Some aid \<Rightarrow>
          if aid = [] then [ToastError ''No active exam attempt'']
          else
            Confirm (confirmMessage (cl_answers cl) (cl_questions cl)) #
            (if confirm (confirmMessage (cl_answers cl) (cl_questions cl))
             then [SubmitAttemptMutate aid (build_responses (cl_questions cl) (cl_answers cl))]
             else []))"

text \<open>The \<^verbatim>\<open>handleSubmit\<close> of the current render: the one the Submit button calls.\<close>

definition current_closure :: "exam_state \<Rightarrow> closure" where
  "current_closure s =
     \<lparr> cl_attemptId = attemptId s, cl_answers = answers s, cl_questions = questions s \<rparr>"

definition click_submit :: "(string \<Rightarrow> bool) \<Rightarrow> exam_state \<Rightarrow> effect list" where
  "click_submit confirm s = handleSubmit confirm (current_closure s)"

text \<open>Two users: one who accepts every dialog, one who dismisses every dialog.\<close>

definition accepts :: "string \<Rightarrow> bool" where
  "accepts msg = True"

definition dismisses :: "string \<Rightarrow> bool" where
  "dismisses msg = False"

subsection \<open>The countdown\<close>

text \<open>
  The effect on \<^verbatim>\<open>[attemptId, isSubmitted]\<close> (lines 184 to 199): its cleanup clears the interval
  of the previous run, and it sets a new one unless there is no attempt or it is submitted.
\<close>

definition timer_effect :: "exam_state \<Rightarrow> exam_state" where
  "timer_effect s =
     (if \<not> active (attemptId s) \<or> isSubmitted s then s\<lparr> timer := None \<rparr>
      else s\<lparr> timer := Some (current_closure s) \<rparr>)"

text \<open>
  One second passes. A running interval calls \<^verbatim>\<open>setTimeLeft\<close> with the updater of lines 188 to
  195; an interval that is not set, or was cleared, does nothing.
\<close>

definition tick :: "(string \<Rightarrow> bool) \<Rightarrow> exam_state \<Rightarrow> exam_state \<times> effect list" where
  "tick confirm s =
     (case timer s of
        None \<Rightarrow> (s, [])
      | Some cl \<Rightarrow>
          if timeLeft s \<le> 1
          then (s\<lparr> timeLeft := 0, timer := None \<rparr>, ClearInterval # handleSubmit confirm cl)
          else (s\<lparr> timeLeft := timeLeft s - 1 \<rparr>, []))"

text \<open>\<open>n\<close> seconds pass: the state after them, and everything done during them, in order.\<close>

fun ticks :: "nat \<Rightarrow> (string \<Rightarrow> bool) \<Rightarrow> exam_state \<Rightarrow> exam_state \<times> effect list" where
  "ticks 0 confirm s = (s, [])"
| "ticks (Suc n) confirm s =
     (case tick confirm s of (s', es) \<Rightarrow>
        (case ticks n confirm s' of (s'', es') \<Rightarrow> (s'', es @ es')))"

definition is_submit_request :: "effect \<Rightarrow> bool" where
  "is_submit_request e = (case e of SubmitAttemptMutate aid rs \<Rightarrow> True | _ \<Rightarrow> False)"

definition is_confirm :: "effect \<Rightarrow> bool" where
  "is_confirm e = (case e of Confirm msg \<Rightarrow> True | _ \<Rightarrow> False)"

definition is_start_request :: "effect \<Rightarrow> bool" where
  "is_start_request e = (case e of StartAttemptMutate eid \<Rightarrow> True | _ \<Rightarrow> False)"

text \<open>
  \<^verbatim>\<open>submitAttemptMutation.onSuccess\<close> (lines 117 to 141). The response carries the attempt's
  identifier, which may be absent, and the results, \<^verbatim>\<open>undefined\<close> when absent.

  The score toast formats \<^verbatim>\<open>results.percentage || 0\<close> with \<^verbatim>\<open>toFixed\<close>, a method of numbers
  only. The callback given to \<^verbatim>\<open>setTimeout\<close> declares its own \<^verbatim>\<open>attemptId\<close>:
  \<^verbatim>\<open>const attemptId = data.data?.data?.attempt?.id || attemptId\<close>. The name on the right is
  that same constant, read before it has a value, whenever the left operand is falsy.
\<close>

record submit_response =
  sub_attempt_id :: "string option"
  sub_results :: jsval

definition after_submit :: "submit_response \<Rightarrow> action" where
  "after_submit r =
     (case sub_attempt_id r of
        None \<Rightarrow>
          Uncaught (ReferenceError (''Cannot access '' @ quoted ''attemptId'' @
                                    '' before initialization''))
      | Some aid \<Rightarrow>
          if aid \<noteq> [] then Navigate (''/exam/results/'' @ aid)
          else Uncaught (ReferenceError (''Cannot access '' @ quoted ''attemptId'' @
                                         '' before initialization'')))"

definition is_number :: "jsval \<Rightarrow> bool" where
  "is_number v = (case v of JNum n \<Rightarrow> True | _ \<Rightarrow> False)"

definition submit_onSuccess :: "submit_response \<Rightarrow> exam_state \<Rightarrow> exam_state \<times> effect list" where
  "submit_onSuccess r s =
     (s\<lparr> isSubmitted := True \<rparr>,
      ToastSuccess ''Exam submitted successfully!'' #
      (if truthy (sub_results r) then
         (if is_number (js_or (js_prop (sub_results r) ''percentage'') (JNum 0))
          then [ToastScore (sub_results r) 4000, SetTimeout 3000 (after_submit r)]
          else [Throw (TypeError ''score.toFixed is not a function'')])
       else [SetTimeout 3000 (after_submit r)]))"

subsection \<open>Answers and navigation\<close>

text \<open>
  \<^verbatim>\<open>handleAnswerSelect\<close> (lines 201 to 206), the \<^verbatim>\<open>onChange\<close> of the essay and short-answer
  text areas (lines 780 and 828) and that of a blank's input (lines 887 to 894). Each returns
  the new answers object and what else it does, which is nothing. \<open>key\<close> is the identifier of
  the question on screen, \<^verbatim>\<open>currentQuestionData.id\<close>.
\<close>

definition handleAnswerSelect :: "answers_obj \<Rightarrow> string \<Rightarrow> int \<Rightarrow> answers_obj \<times> effect list" where
  "handleAnswerSelect prev key answerIndex = (obj_set key (JNum answerIndex) prev, [])"

definition text_onChange :: "answers_obj \<Rightarrow> string \<Rightarrow> string \<Rightarrow> answers_obj \<times> effect list" where
  "text_onChange prev key val = (obj_set key (JStr val) prev, [])"

text \<open>
  The blank's handler stores into \<^verbatim>\<open>newAnswers[id][index]\<close>, after putting an empty array
  there if the entry is falsy. Storing into a property of a string, number or boolean throws in
  a module, which is strict code.
\<close>

definition blank_onChange ::
  "answers_obj \<Rightarrow> string \<Rightarrow> nat \<Rightarrow> string \<Rightarrow> js_exn + answers_obj \<times> effect list" where
  "blank_onChange ans key index val =
     (case js_or (obj_get ans key) (JArr []) of
        JArr xs \<Rightarrow> Inr (obj_set key (JArr (arr_set xs index (JStr val))) ans, [])
      | JObj fs \<Rightarrow>
          Inr (obj_set key (JObj (obj_set (string_of_nat index) (JStr val) fs)) ans, [])
      | _ \<Rightarrow> Inl (TypeError ''Cannot create property on a primitive value''))"

text \<open>
  The Previous button, the Next button, and the navigation grid with one button for each
  index of \<^verbatim>\<open>questions.map((question, index) => ...)\<close>, which sets that index.
\<close>

definition previous_question :: "int \<Rightarrow> int" where
  "previous_question prev = max 0 (prev - 1)"

definition next_question :: "question list \<Rightarrow> int \<Rightarrow> int" where
  "next_question qs prev = min (int (length qs) - 1) (prev + 1)"

definition grid_indices :: "question list \<Rightarrow> int list" where
  "grid_indices qs = map int [0..<length qs]"

definition jump_to :: "int \<Rightarrow> int \<Rightarrow> int" where
  "jump_to index prev = index"

definition in_bounds :: "question list \<Rightarrow> int \<Rightarrow> bool" where
  "in_bounds qs i = (0 \<le> i \<and> i \<le> int (length qs) - 1)"

subsection \<open>A session\<close>

text \<open>
  The state of a freshly mounted component (the \<^verbatim>\<open>useState\<close> initial values, lines 28 to 32),
  an exam of two questions, and the state once an attempt of one minute has started and the
  timer effect has run.
\<close>

definition initial_state :: exam_state where
  "initial_state =
     \<lparr> currentQuestion = 0, answers = [], timeLeft = 3600, isSubmitted = False,
       attemptId = None, questions = [], timer = None \<rparr>"

definition example_questions :: "question list" where
  "example_questions =
     [\<lparr> q_id = ''q1'', q_type = ''MULTIPLE_CHOICE'' \<rparr>, \<lparr> q_id = ''q2'', q_type = ''ESSAY'' \<rparr>]"

definition started_state :: exam_state where
  "started_state =
     timer_effect (fst (start_onSuccess
       \<lparr> sr_attempt_id = Some ''a1'', sr_duration = Some 1, sr_questions = example_questions \<rparr>
       initial_state))"

section \<open>Properties of the bulk insert\<close>

lemma map_index_exn_first_error:
  "i < length xs \<Longrightarrow> (\<forall>j<i. \<exists>r. f (k + j) (xs ! j) = Inr r) \<Longrightarrow> f (k + i) (xs ! i) = Inl e
   \<Longrightarrow> map_index_exn f k xs = Inl e"
proof (induction xs arbitrary: i k)
  case Nil
  then show ?case by simp
next
  case (Cons x xs)
  show ?case
  proof (cases i)
    case 0
    with Cons.prems show ?thesis by simp
  next
    case (Suc i')
    from Cons.prems(2) Suc obtain r where r: "f k x = Inr r" by fastforce
    have a: "\<forall>j<i'. \<exists>r. f (Suc k + j) (xs ! j) = Inr r"
    proof (intro allI impI)
      fix j assume "j < i'"
      then have "Suc j < i" using Suc by simp
      with Cons.prems(2) obtain r where "f (k + Suc j) ((x # xs) ! Suc j) = Inr r" by blast
      then show "\<exists>r. f (Suc k + j) (xs ! j) = Inr r" by simp
    qed
    have b: "f (Suc k + i') (xs ! i') = Inl e" using Cons.prems(3) Suc by simp
    have c: "i' < length xs" using Cons.prems(1) Suc by simp
    have "map_index_exn f (Suc k) xs = Inl e" by (rule Cons.IH[OF c a b])
    with r show ?thesis by simp
  qed
qed

lemma map_index_exn_some_error:
  "x \<in> set xs \<Longrightarrow> (\<forall>k. \<exists>e. f k x = Inl e) \<Longrightarrow> \<exists>e. map_index_exn f k xs = Inl e"
proof (induction xs arbitrary: k)
  case Nil
  then show ?case by simp
next
  case (Cons y ys)
  show ?case
  proof (cases "f k y")
    case (Inl e)
    then show ?thesis by simp
  next
    case (Inr r)
    have "x \<noteq> y" using Cons.prems(2) Inr by (metis sum.distinct(1))
    with Cons.prems(1) have "x \<in> set ys" by simp
    then obtain e where "map_index_exn f (Suc k) ys = Inl e" using Cons.IH Cons.prems(2) by blast
    with Inr show ?thesis by simp
  qed
qed

lemma validate_lacking_fails: "lacks_required q \<Longrightarrow> \<exists>e. validate_question k q = Inl e"
  by (cases q) (auto simp: validate_question_def lacks_required_def)

lemma validate_lacking_message:
  "lacks_required q \<Longrightarrow> q \<noteq> JNull \<Longrightarrow> q \<noteq> JUndefined \<Longrightarrow>
   validate_question k q = Inl (Error (missing_fields_message k))"
  by (cases q) (auto simp: validate_question_def lacks_required_def)

text \<open>
  Claim C5, as the code has it. A malformed batch (text that does not parse, a document that is
  not an array, or an array with an entry lacking \<^verbatim>\<open>text\<close>, \<^verbatim>\<open>examCategoryId\<close> or \<^verbatim>\<open>type\<close>)
  is rejected as a whole: the handler shows one error toast and makes no network call. When the
  first entry that fails is at index \<open>i\<close>, lacks a required field and is not \<^verbatim>\<open>null\<close>, the
  toast names entry \<open>i + 1\<close>.
\<close>

theorem bulk_insert_rejects_malformed_batch:
  assumes "malformed_batch parsed"
  shows "(\<exists>m. handleBulkInsert parsed = [QToastError m]) \<and>
         filter is_network_call (handleBulkInsert parsed) = [] \<and>
         (\<forall>qs i. parsed = Inr (JArr qs) \<and> i < length qs \<and> lacks_required (qs ! i) \<and>
                 qs ! i \<noteq> JNull \<and> qs ! i \<noteq> JUndefined \<and>
                 (\<forall>j<i. \<exists>r. validate_question j (qs ! j) = Inr r)
            \<longrightarrow> handleBulkInsert parsed =
                  [QToastError (''Invalid JSON format: '' @ missing_fields_message i)])"
proof -
  have one: "\<exists>m. handleBulkInsert parsed = [QToastError m]"
  proof (cases parsed)
    case (Inl e)
    then show ?thesis by (simp add: handleBulkInsert_def)
  next
    case (Inr v)
    show ?thesis
    proof (cases "\<exists>qs. v = JArr qs")
      case False
      then show ?thesis using Inr by (cases v) (simp_all add: handleBulkInsert_def)
    next
      case True
      then obtain qs where v: "v = JArr qs" by blast
      with assms Inr obtain q where q: "q \<in> set qs" "lacks_required q"
        by (auto simp: malformed_batch_def)
      have "\<forall>k. \<exists>e. validate_question k q = Inl e"
        using q(2) by (simp add: validate_lacking_fails)
      then obtain e where "map_index_exn validate_question 0 qs = Inl e"
        using map_index_exn_some_error [OF q(1), of validate_question 0] by blast
      then show ?thesis using Inr v by (simp add: handleBulkInsert_def)
    qed
  qed
  then obtain m where "handleBulkInsert parsed = [QToastError m]" ..
  then have none: "filter is_network_call (handleBulkInsert parsed) = []"
    by (simp add: is_network_call_def)
  have named: "handleBulkInsert parsed =
                 [QToastError (''Invalid JSON format: '' @ missing_fields_message i)]"
    if h: "parsed = Inr (JArr qs) \<and> i < length qs \<and> lacks_required (qs ! i) \<and>
           qs ! i \<noteq> JNull \<and> qs ! i \<noteq> JUndefined \<and>
           (\<forall>j<i. \<exists>r. validate_question j (qs ! j) = Inr r)" for qs i
  proof -
    have len: "i < length qs" using h by simp
    have fails: "validate_question (0 + i) (qs ! i) = Inl (Error (missing_fields_message i))"
      using h by (simp add: validate_lacking_message)
    have earlier: "\<forall>j<i. \<exists>r. validate_question (0 + j) (qs ! j) = Inr r" using h by simp
    have "map_index_exn validate_question 0 qs = Inl (Error (missing_fields_message i))"
      by (rule map_index_exn_first_error [OF len earlier fails])
    then show ?thesis using h by (simp add: handleBulkInsert_def)
  qed
  show ?thesis
  proof (intro conjI allI impI)
    show "\<exists>m. handleBulkInsert parsed = [QToastError m]" by (rule one)
    show "filter is_network_call (handleBulkInsert parsed) = []" by (rule none)
    fix qs i
    assume "parsed = Inr (JArr qs) \<and> i < length qs \<and> lacks_required (qs ! i) \<and>
            qs ! i \<noteq> JNull \<and> qs ! i \<noteq> JUndefined \<and>
            (\<forall>j<i. \<exists>r. validate_question j (qs ! j) = Inr r)"
    then show "handleBulkInsert parsed =
                 [QToastError (''Invalid JSON format: '' @ missing_fields_message i)]"
      by (rule named)
  qed
qed

text \<open>
  The theorem at the batch \<^verbatim>\<open>[{"type":"MULTIPLE_CHOICE"}]\<close>: it is malformed, and the one toast
  names question 1.
\<close>

theorem bulk_insert_rejects_malformed_batch_witness:
  "malformed_batch (Inr (JArr [JObj [(''type'', JStr ''MULTIPLE_CHOICE'')]])) \<and>
   filter is_network_call
     (handleBulkInsert (Inr (JArr [JObj [(''type'', JStr ''MULTIPLE_CHOICE'')]]))) = [] \<and>
   handleBulkInsert (Inr (JArr [JObj [(''type'', JStr ''MULTIPLE_CHOICE'')]])) =
     [QToastError
        ''Invalid JSON format: Question 1 is missing required fields (text, examCategoryId, type)'']"
proof -
  have h: "malformed_batch (Inr (JArr [JObj [(''type'', JStr ''MULTIPLE_CHOICE'')]]))"
    by (simp add: malformed_batch_def lacks_required_def)
  show ?thesis
    using h bulk_insert_rejects_malformed_batch [OF h]
    by (simp add: lacks_required_def missing_fields_message_def digit_char_def
          is_network_call_def)
qed

text \<open>
  Claim C5 as stated fails at the batch \<^verbatim>\<open>[null]\<close>. Its entry at index 0 has none of the
  required fields; reading \<^verbatim>\<open>q.text\<close> throws before the check that builds the numbered
  message, and the toast carries the engine's message, which names no entry.
\<close>

theorem bulk_insert_null_entry_counterexample:
  "lacks_required JNull \<and>
   handleBulkInsert (Inr (JArr [JNull])) =
     [QToastError (''Invalid JSON format: Cannot read properties of null (reading '' @
                   [CHR 0x27] @ ''text'' @ [CHR 0x27] @ '')'')] \<and>
   handleBulkInsert (Inr (JArr [JNull])) \<noteq>
     [QToastError (''Invalid JSON format: '' @ missing_fields_message 0)]"
  by (simp add: lacks_required_def handleBulkInsert_def validate_question_def quoted_def
        missing_fields_message_def)

lemma normalize_option_pair: "normalize_option x = Inr y \<Longrightarrow> y = option_pair x"
  by (cases x) (auto simp: normalize_option_def option_pair_def)

lemma map_exn_normalize: "map_exn normalize_option os = Inr os' \<Longrightarrow> os' = map option_pair os"
proof (induction os arbitrary: os')
  case Nil
  then show ?case by simp
next
  case (Cons x xs)
  then show ?case
    by (auto split: sum.splits dest: normalize_option_pair)
qed

lemma normalize_options_array:
  "normalize_options opts = Inr v \<Longrightarrow> \<exists>os. opts = JArr os \<and> v = JArr (map option_pair os)"
  by (cases opts) (auto simp: normalize_options_def split: sum.splits dest: map_exn_normalize)

text \<open>
  Claim C7, as the code has it. For an entry that passes validation, the object sent has
  difficulty \<^verbatim>\<open>'EASY'\<close>, marks 1 and time limit 60 where the entry has no such field. An entry
  of a type other than \<^verbatim>\<open>MULTIPLE_CHOICE\<close> and \<^verbatim>\<open>FILL_IN_THE_BLANK\<close> is sent with an empty
  options list. An entry of one of these two types is sent with an empty options list when it
  has no options (they are optional), and otherwise its options are an array and each is sent as
  the pair of \<^verbatim>\<open>text\<close> (the option's own, else the option itself) and \<^verbatim>\<open>isCorrect\<close> (the
  option's own, else \<^verbatim>\<open>false\<close>).
\<close>

theorem validated_question_fields:
  assumes "validate_question index q = Inr r"
  shows "(js_prop q ''difficulty'' = JUndefined \<longrightarrow> bq_difficulty r = JStr ''EASY'') \<and>
         (js_prop q ''marks'' = JUndefined \<longrightarrow> bq_marks r = JNum 1) \<and>
         (js_prop q ''timeLimit'' = JUndefined \<longrightarrow> bq_timeLimit r = JNum 60) \<and>
         (\<not> has_option_list (js_prop q ''type'') \<longrightarrow> bq_options r = JArr []) \<and>
         (has_option_list (js_prop q ''type'') \<and> \<not> truthy (js_prop q ''options'') \<longrightarrow>
            bq_options r = JArr []) \<and>
         (has_option_list (js_prop q ''type'') \<and> truthy (js_prop q ''options'') \<longrightarrow>
            (\<exists>os. js_prop q ''options'' = JArr os \<and> bq_options r = JArr (map option_pair os)))"
proof -
  obtain tx where t: "get_prop q ''text'' = Inr tx"
    using assms by (auto simp: validate_question_def split: sum.splits)
  have ok: "truthy tx \<and> truthy (js_prop q ''examCategoryId'') \<and> truthy (js_prop q ''type'')"
    using assms t by (auto simp: validate_question_def split: if_splits)
  define res where
    "res = (if has_option_list (js_prop q ''type'') \<and> truthy (js_prop q ''options'')
            then normalize_options (js_prop q ''options'')
            else Inr (js_prop q ''options''))"
  obtain opts where opts: "res = Inr opts"
    using assms t ok unfolding res_def by (auto simp: validate_question_def split: sum.splits)
  have r: "r = \<lparr> bq_text = tx,
                bq_examCategoryId = js_prop q ''examCategoryId'',
                bq_difficulty = js_or (js_prop q ''difficulty'') (JStr ''EASY''),
                bq_type = js_prop q ''type'',
                bq_marks = js_or (js_prop q ''marks'') (JNum 1),
                bq_timeLimit = js_or (js_prop q ''timeLimit'') (JNum 60),
                bq_options =
                  (if has_option_list (js_prop q ''type'') then js_or opts (JArr [])
                   else JArr []) \<rparr>"
    using assms t ok opts unfolding res_def by (auto simp: validate_question_def split: sum.splits)
  have a: "has_option_list (js_prop q ''type'') \<and> \<not> truthy (js_prop q ''options'') \<longrightarrow>
            bq_options r = JArr []"
    using opts r unfolding res_def by (auto simp: js_or_def)
  have b: "has_option_list (js_prop q ''type'') \<and> truthy (js_prop q ''options'') \<longrightarrow>
            (\<exists>os. js_prop q ''options'' = JArr os \<and> bq_options r = JArr (map option_pair os))"
  proof
    assume h: "has_option_list (js_prop q ''type'') \<and> truthy (js_prop q ''options'')"
    then have "normalize_options (js_prop q ''options'') = Inr opts"
      using opts by (simp add: res_def)
    then obtain os where "js_prop q ''options'' = JArr os" "opts = JArr (map option_pair os)"
      using normalize_options_array by blast
    then show "\<exists>os. js_prop q ''options'' = JArr os \<and> bq_options r = JArr (map option_pair os)"
      using r h by (simp add: js_or_def)
  qed
  show ?thesis using a b r by (simp add: js_or_def)
qed

text \<open>
  The theorem at a multiple-choice entry with two options, one a bare string and one an object
  marked correct.
\<close>

theorem validated_question_fields_witness:
  "validate_question 0
     (JObj [(''text'', JStr ''Q''), (''examCategoryId'', JStr ''cat_001''),
            (''type'', JStr ''MULTIPLE_CHOICE''),
            (''options'', JArr [JStr ''A'',
                                JObj [(''text'', JStr ''B''), (''isCorrect'', JBool True)]])])
   = Inr \<lparr> bq_text = JStr ''Q'', bq_examCategoryId = JStr ''cat_001'',
           bq_difficulty = JStr ''EASY'', bq_type = JStr ''MULTIPLE_CHOICE'',
           bq_marks = JNum 1, bq_timeLimit = JNum 60,
           bq_options = JArr [JObj [(''text'', JStr ''A''), (''isCorrect'', JBool False)],
                              JObj [(''text'', JStr ''B''), (''isCorrect'', JBool True)]] \<rparr>
   \<and> map option_pair [JStr ''A'', JObj [(''text'', JStr ''B''), (''isCorrect'', JBool True)]] =
       [JObj [(''text'', JStr ''A''), (''isCorrect'', JBool False)],
        JObj [(''text'', JStr ''B''), (''isCorrect'', JBool True)]]"
proof -
  have h: "validate_question 0
     (JObj [(''text'', JStr ''Q''), (''examCategoryId'', JStr ''cat_001''),
            (''type'', JStr ''MULTIPLE_CHOICE''),
            (''options'', JArr [JStr ''A'',
                                JObj [(''text'', JStr ''B''), (''isCorrect'', JBool True)]])])
   = Inr \<lparr> bq_text = JStr ''Q'', bq_examCategoryId = JStr ''cat_001'',
           bq_difficulty = JStr ''EASY'', bq_type = JStr ''MULTIPLE_CHOICE'',
           bq_marks = JNum 1, bq_timeLimit = JNum 60,
           bq_options = JArr [JObj [(''text'', JStr ''A''), (''isCorrect'', JBool False)],
                              JObj [(''text'', JStr ''B''), (''isCorrect'', JBool True)]] \<rparr>"
    by (simp add: validate_question_def has_option_list_def js_or_def normalize_options_def
          normalize_option_def)
  show ?thesis
    using h validated_question_fields [OF h]
    by (simp add: has_option_list_def)
qed

text \<open>
  Claim C7 as stated fails where it calls the options list required: a multiple-choice entry
  with no options passes validation, and the batch is sent with an empty options list for it.
\<close>

theorem options_not_required_counterexample:
  "js_prop (JObj [(''text'', JStr ''Q''), (''examCategoryId'', JStr ''cat_001''),
                  (''type'', JStr ''MULTIPLE_CHOICE'')]) ''options'' = JUndefined \<and>
   handleBulkInsert (Inr (JArr
      [JObj [(''text'', JStr ''Q''), (''examCategoryId'', JStr ''cat_001''),
             (''type'', JStr ''MULTIPLE_CHOICE'')]])) =
     [BulkInsertMutate
        [\<lparr> bq_text = JStr ''Q'', bq_examCategoryId = JStr ''cat_001'',
            bq_difficulty = JStr ''EASY'', bq_type = JStr ''MULTIPLE_CHOICE'',
            bq_marks = JNum 1, bq_timeLimit = JNum 60, bq_options = JArr [] \<rparr>]]"
  by (simp add: handleBulkInsert_def validate_question_def has_option_list_def js_or_def)

section \<open>Properties of the exam runner\<close>

subsection \<open>The countdown and submission\<close>

lemma ticks_before:
  "timer s = Some cl \<Longrightarrow> int k < timeLeft s \<Longrightarrow>
   ticks k confirm s = (s\<lparr> timeLeft := timeLeft s - int k \<rparr>, [])"
proof (induction k arbitrary: s)
  case 0
  then show ?case by simp
next
  case (Suc k)
  let ?s' = "s\<lparr> timeLeft := timeLeft s - 1 \<rparr>"
  have t: "tick confirm s = (?s', [])" using Suc.prems by (simp add: tick_def)
  have "ticks k confirm ?s' = (?s'\<lparr> timeLeft := timeLeft ?s' - int k \<rparr>, [])"
    using Suc.prems by (intro Suc.IH) simp_all
  with t show ?case by (simp add: algebra_simps)
qed

lemma ticks_stopped: "timer s = None \<Longrightarrow> ticks n confirm s = (s, [])"
  by (induction n) (simp_all add: tick_def)

lemma ticks_expire:
  "timer s = Some cl \<Longrightarrow> 0 < timeLeft s \<Longrightarrow> timeLeft s \<le> int n \<Longrightarrow>
   ticks n confirm s =
     (s\<lparr> timeLeft := 0, timer := None \<rparr>, ClearInterval # handleSubmit confirm cl)"
proof (induction n arbitrary: s)
  case 0
  then show ?case by simp
next
  case (Suc n)
  show ?case
  proof (cases "timeLeft s \<le> 1")
    case True
    let ?s' = "s\<lparr> timeLeft := 0, timer := None \<rparr>"
    have t: "tick confirm s = (?s', ClearInterval # handleSubmit confirm cl)"
      using Suc.prems True by (simp add: tick_def)
    have "ticks n confirm ?s' = (?s', [])" by (rule ticks_stopped) simp
    with t show ?thesis by simp
  next
    case False
    let ?s' = "s\<lparr> timeLeft := timeLeft s - 1 \<rparr>"
    have t: "tick confirm s = (?s', [])" using Suc.prems False by (simp add: tick_def)
    have "ticks n confirm ?s' =
            (?s'\<lparr> timeLeft := 0, timer := None \<rparr>, ClearInterval # handleSubmit confirm cl)"
      using Suc.prems False by (intro Suc.IH) simp_all
    with t show ?thesis by simp
  qed
qed

lemma handleSubmit_active:
  "cl_attemptId cl = Some aid \<Longrightarrow> aid \<noteq> [] \<Longrightarrow>
   handleSubmit confirm cl =
     Confirm (confirmMessage (cl_answers cl) (cl_questions cl)) #
     (if confirm (confirmMessage (cl_answers cl) (cl_questions cl))
      then [SubmitAttemptMutate aid (build_responses (cl_questions cl) (cl_answers cl))]
      else [])"
  by (simp add: handleSubmit_def)

lemma timer_effect_closure:
  "timer (timer_effect s) = Some cl \<Longrightarrow> active (cl_attemptId cl) \<and> cl = current_closure s"
  by (auto simp: timer_effect_def current_closure_def split: if_splits)

lemma started_state_eq:
  "started_state =
     \<lparr> currentQuestion = 0, answers = [], timeLeft = 60, isSubmitted = False,
       attemptId = Some ''a1'', questions = example_questions,
       timer = Some \<lparr> cl_attemptId = Some ''a1'', cl_answers = [],
                      cl_questions = example_questions \<rparr> \<rparr>"
  by (simp add: started_state_def timer_effect_def start_onSuccess_def initial_state_def
        initial_timeLeft_def current_closure_def example_questions_def)

lemma started_state_expires:
  "ticks 60 confirm started_state =
     (started_state\<lparr> timeLeft := 0, timer := None \<rparr>,
      ClearInterval # handleSubmit confirm
        \<lparr> cl_attemptId = Some ''a1'', cl_answers = [], cl_questions = example_questions \<rparr>)"
  by (rule ticks_expire) (simp_all add: started_state_eq)

lemma started_state_last_second:
  "ticks 59 confirm started_state = (started_state\<lparr> timeLeft := 1 \<rparr>, [])"
  using ticks_before [of started_state _ 59 confirm] by (simp add: started_state_eq)

lemma active_cases: "active a \<Longrightarrow> \<exists>aid. a = Some aid \<and> aid \<noteq> []"
  by (cases a) simp_all

lemma handleSubmit_asks:
  assumes "active (cl_attemptId cl)"
  shows "\<exists>m a rs. handleSubmit confirm cl =
           Confirm m # (if confirm m then [SubmitAttemptMutate a rs] else [])"
proof -
  obtain aid where aid: "cl_attemptId cl = Some aid" "aid \<noteq> []"
    using active_cases [OF assms] by auto
  show ?thesis
    unfolding handleSubmit_active [OF aid, of confirm] by (intro exI) (rule refl)
qed

text \<open>
  Claim C1, as the code has it. The timer and the Submit button call the same handler, and with
  an active attempt identifier both go through the confirmation dialog. A click on Submit shows
  the summary of the current answers, and the request, with the current answers, is sent only
  if the user accepts. The tick on which the time runs out clears the interval and shows the
  dialog once, and a request is sent only if the user accepts that dialog: expiry does not
  bypass it.
\<close>

theorem every_submission_asks:
  assumes "attemptId s = Some aid" and "aid \<noteq> []"
  shows "click_submit confirm s =
           [Confirm (confirmMessage (answers s) (questions s))] @
           (if confirm (confirmMessage (answers s) (questions s))
            then [SubmitAttemptMutate aid (build_responses (questions s) (answers s))]
            else []) \<and>
         (\<forall>cl. timer s = Some cl \<and> active (cl_attemptId cl) \<and> timeLeft s \<le> 1 \<longrightarrow>
            (\<exists>m a rs. snd (tick confirm s) =
               ClearInterval # Confirm m # (if confirm m then [SubmitAttemptMutate a rs] else [])))"
proof (intro conjI allI impI)
  have "cl_attemptId (current_closure s) = Some aid"
    using assms(1) by (simp add: current_closure_def)
  then show "click_submit confirm s =
           [Confirm (confirmMessage (answers s) (questions s))] @
           (if confirm (confirmMessage (answers s) (questions s))
            then [SubmitAttemptMutate aid (build_responses (questions s) (answers s))]
            else [])"
    using handleSubmit_active [of "current_closure s" aid confirm] assms(2)
    by (simp add: click_submit_def current_closure_def)
next
  fix cl
  assume h: "timer s = Some cl \<and> active (cl_attemptId cl) \<and> timeLeft s \<le> 1"
  then obtain m a rs where
    "handleSubmit confirm cl = Confirm m # (if confirm m then [SubmitAttemptMutate a rs] else [])"
    using handleSubmit_asks [of cl confirm] by auto
  moreover have "snd (tick confirm s) = ClearInterval # handleSubmit confirm cl"
    using h by (simp add: tick_def)
  ultimately have "snd (tick confirm s) =
      ClearInterval # Confirm m # (if confirm m then [SubmitAttemptMutate a rs] else [])"
    by simp
  then show "\<exists>m a rs. snd (tick confirm s) =
      ClearInterval # Confirm m # (if confirm m then [SubmitAttemptMutate a rs] else [])"
    by (intro exI)
qed

text \<open>
  The theorem at the started session in its last second, with a user who accepts: the click
  shows the dialog and then sends the request, and the tick clears the interval, shows one
  dialog and has one request follow.
\<close>

theorem every_submission_asks_witness:
  "attemptId (started_state\<lparr> timeLeft := 1 \<rparr>) = Some ''a1'' \<and>
   click_submit accepts (started_state\<lparr> timeLeft := 1 \<rparr>) =
     [Confirm (confirmMessage [] example_questions), SubmitAttemptMutate ''a1'' []] \<and>
   map is_confirm (snd (tick accepts (started_state\<lparr> timeLeft := 1 \<rparr>))) = [False, True, False] \<and>
   map is_submit_request (snd (tick accepts (started_state\<lparr> timeLeft := 1 \<rparr>))) =
     [False, False, True]"
proof -
  let ?s = "started_state\<lparr> timeLeft := 1 \<rparr>"
  let ?cl = "\<lparr> cl_attemptId = Some ''a1'', cl_answers = [], cl_questions = example_questions \<rparr>"
  have h1: "attemptId ?s = Some ''a1''" by (simp add: started_state_eq)
  have h2: "''a1'' \<noteq> []" by simp
  note c = every_submission_asks [OF h1 h2, of accepts]
  have click: "click_submit accepts ?s =
     [Confirm (confirmMessage [] example_questions), SubmitAttemptMutate ''a1'' []]"
    using c by (simp add: started_state_eq accepts_def build_responses_def)
  have "timer ?s = Some ?cl \<and> active (cl_attemptId ?cl) \<and> timeLeft ?s \<le> 1"
    by (simp add: started_state_eq)
  then obtain m a rs where
    "snd (tick accepts ?s) =
       ClearInterval # Confirm m # (if accepts m then [SubmitAttemptMutate a rs] else [])"
    using c by blast
  then have "map is_confirm (snd (tick accepts ?s)) = [False, True, False] \<and>
             map is_submit_request (snd (tick accepts ?s)) = [False, False, True]"
    by (simp add: accepts_def is_confirm_def is_submit_request_def)
  with h1 click show ?thesis by simp
qed

text \<open>
  Claim C1 as stated fails on the timer's side: the submission at expiry is not unconditional
  and does not bypass the dialog. In the started session, with a user who dismisses the dialog,
  the tick on which the time runs out shows the dialog and sends no request.
\<close>

theorem timer_expiry_asks_counterexample:
  "timeLeft (fst (ticks 59 dismisses started_state)) = 1 \<and>
   filter is_confirm (snd (tick dismisses (fst (ticks 59 dismisses started_state)))) =
     [Confirm (confirmMessage [] example_questions)] \<and>
   filter is_submit_request (snd (tick dismisses (fst (ticks 59 dismisses started_state)))) = []"
proof -
  have a: "fst (ticks 59 dismisses started_state) = started_state\<lparr> timeLeft := 1 \<rparr>"
    by (simp add: started_state_last_second)
  have b: "snd (tick dismisses (started_state\<lparr> timeLeft := 1 \<rparr>)) =
             [ClearInterval, Confirm (confirmMessage [] example_questions)]"
    by (simp add: started_state_eq tick_def handleSubmit_def dismisses_def)
  show ?thesis
    unfolding a b by (simp add: is_confirm_def is_submit_request_def)
qed

text \<open>
  Claim C2, as the code has it. Let the interval be running with the handler of an active
  attempt, and let the remaining time be \<open>D > 0\<close>. After \<open>k < D\<close> ticks the remaining time is
  \<open>D - k\<close> and nothing else has happened. After \<open>D\<close> ticks, and after any number beyond, the
  remaining time is 0, the interval is cleared, and all that has happened is the clearing of
  the interval, then one confirmation dialog, then one submission request if the user accepted
  the dialog and none if the user dismissed it. The remaining time is never negative.
\<close>

theorem countdown_reaches_zero:
  assumes "timer s = Some cl" and "active (cl_attemptId cl)"
      and "timeLeft s = D" and "0 < D"
  shows "(\<forall>k. int k < D \<longrightarrow> ticks k confirm s = (s\<lparr> timeLeft := D - int k \<rparr>, [])) \<and>
         (\<exists>m a rs. \<forall>n. D \<le> int n \<longrightarrow>
            ticks n confirm s =
              (s\<lparr> timeLeft := 0, timer := None \<rparr>,
               ClearInterval # Confirm m #
               (if confirm m then [SubmitAttemptMutate a rs] else []))) \<and>
         (\<forall>n. 0 \<le> timeLeft (fst (ticks n confirm s)))"
proof (intro conjI)
  show "\<forall>k. int k < D \<longrightarrow> ticks k confirm s = (s\<lparr> timeLeft := D - int k \<rparr>, [])"
  proof (intro allI impI)
    fix k assume "int k < D"
    then show "ticks k confirm s = (s\<lparr> timeLeft := D - int k \<rparr>, [])"
      using ticks_before [OF assms(1), of k confirm] assms(3) by simp
  qed
next
  obtain m a rs where hs:
    "handleSubmit confirm cl = Confirm m # (if confirm m then [SubmitAttemptMutate a rs] else [])"
    using handleSubmit_asks [OF assms(2), of confirm] by auto
  have "\<forall>n. D \<le> int n \<longrightarrow>
            ticks n confirm s =
              (s\<lparr> timeLeft := 0, timer := None \<rparr>,
               ClearInterval # Confirm m #
               (if confirm m then [SubmitAttemptMutate a rs] else []))"
  proof (intro allI impI)
    fix n assume "D \<le> int n"
    then have "ticks n confirm s =
        (s\<lparr> timeLeft := 0, timer := None \<rparr>, ClearInterval # handleSubmit confirm cl)"
      using ticks_expire [OF assms(1), of n confirm] assms(3,4) by simp
    then show "ticks n confirm s =
              (s\<lparr> timeLeft := 0, timer := None \<rparr>,
               ClearInterval # Confirm m #
               (if confirm m then [SubmitAttemptMutate a rs] else []))"
      unfolding hs .
  qed
  then show "\<exists>m a rs. \<forall>n. D \<le> int n \<longrightarrow>
            ticks n confirm s =
              (s\<lparr> timeLeft := 0, timer := None \<rparr>,
               ClearInterval # Confirm m #
               (if confirm m then [SubmitAttemptMutate a rs] else []))"
    by (intro exI)
next
  show "\<forall>n. 0 \<le> timeLeft (fst (ticks n confirm s))"
  proof
    fix n
    show "0 \<le> timeLeft (fst (ticks n confirm s))"
    proof (cases "int n < D")
      case True
      then show ?thesis using ticks_before [OF assms(1), of n confirm] assms(3) by simp
    next
      case False
      then show ?thesis using ticks_expire [OF assms(1), of n confirm] assms(3,4) by simp
    qed
  qed
qed

text \<open>
  The theorem at the started session, whose attempt lasts one minute, with a user who accepts:
  after 59 ticks one second is left and nothing has happened, and after 60 the time is 0, the
  interval is cleared, and the interval's clearing, one dialog and one request have happened.
\<close>

theorem countdown_reaches_zero_witness:
  "timeLeft started_state = 60 \<and>
   ticks 59 accepts started_state = (started_state\<lparr> timeLeft := 1 \<rparr>, []) \<and>
   fst (ticks 60 accepts started_state) = started_state\<lparr> timeLeft := 0, timer := None \<rparr> \<and>
   map is_confirm (snd (ticks 60 accepts started_state)) = [False, True, False] \<and>
   map is_submit_request (snd (ticks 60 accepts started_state)) = [False, False, True]"
proof -
  let ?cl = "\<lparr> cl_attemptId = Some ''a1'', cl_answers = [], cl_questions = example_questions \<rparr>"
  have h1: "timer started_state = Some ?cl" by (simp add: started_state_eq)
  have h2: "active (cl_attemptId ?cl)" by simp
  have h3: "timeLeft started_state = 60" by (simp add: started_state_eq)
  have h4: "(0::int) < 60" by simp
  note c = countdown_reaches_zero [OF h1 h2 h3 h4, of accepts]
  from c have a: "\<forall>k. int k < 60 \<longrightarrow>
      ticks k accepts started_state = (started_state\<lparr> timeLeft := 60 - int k \<rparr>, [])"
    by (rule conjunct1)
  from c obtain m a' rs where b: "\<forall>n. 60 \<le> int n \<longrightarrow>
      ticks n accepts started_state =
        (started_state\<lparr> timeLeft := 0, timer := None \<rparr>,
         ClearInterval # Confirm m # (if accepts m then [SubmitAttemptMutate a' rs] else []))"
    by auto
  have "ticks 59 accepts started_state = (started_state\<lparr> timeLeft := 1 \<rparr>, [])"
    using a [rule_format, of 59] by simp
  moreover have "ticks 60 accepts started_state =
        (started_state\<lparr> timeLeft := 0, timer := None \<rparr>,
         ClearInterval # Confirm m # (if accepts m then [SubmitAttemptMutate a' rs] else []))"
    using b [rule_format, of 60] by simp
  ultimately show ?thesis
    using h3 by (simp add: accepts_def is_confirm_def is_submit_request_def)
qed

text \<open>
  Claim C2 as stated fails where it has exactly one automatic submission at expiry. In the
  started session, of 60 seconds, with a user who dismisses the dialog, the remaining time
  is 0 after 60 ticks and no submission request has been sent, nor has one after 120 ticks.
\<close>

theorem countdown_dismissed_counterexample:
  "timeLeft started_state = 60 \<and>
   timeLeft (fst (ticks 60 dismisses started_state)) = 0 \<and>
   filter is_submit_request (snd (ticks 60 dismisses started_state)) = [] \<and>
   filter is_submit_request (snd (ticks 120 dismisses started_state)) = []"
proof -
  let ?cl = "\<lparr> cl_attemptId = Some ''a1'', cl_answers = [], cl_questions = example_questions \<rparr>"
  have t: "timer started_state = Some ?cl" by (simp add: started_state_eq)
  have d: "timeLeft started_state = 60" by (simp add: started_state_eq)
  have hs: "handleSubmit dismisses ?cl = [Confirm (confirmMessage [] example_questions)]"
    by (simp add: handleSubmit_def dismisses_def)
  have a: "ticks 60 dismisses started_state =
             (started_state\<lparr> timeLeft := 0, timer := None \<rparr>,
              ClearInterval # handleSubmit dismisses ?cl)"
    by (rule ticks_expire [OF t]) (simp_all add: d)
  have b: "ticks 120 dismisses started_state =
             (started_state\<lparr> timeLeft := 0, timer := None \<rparr>,
              ClearInterval # handleSubmit dismisses ?cl)"
    by (rule ticks_expire [OF t]) (simp_all add: d)
  show ?thesis
    unfolding a b hs using d by (simp add: is_submit_request_def)
qed

text \<open>
  Claim C3, as the code has it. After a successful start the countdown is the returned duration
  times 60 when the duration is there and not 0, and 3600 when it is absent or 0, whatever the
  countdown was before; so it never starts at 0. The attempt identifier is the returned one.
\<close>

theorem countdown_initialised:
  "timeLeft (fst (start_onSuccess r s)) =
     (case sr_duration r of None \<Rightarrow> 3600 | Some d \<Rightarrow> if d = 0 then 3600 else d * 60) \<and>
   timeLeft (fst (start_onSuccess r s)) \<noteq> 0 \<and>
   attemptId (fst (start_onSuccess r s)) = sr_attempt_id r"
proof (cases "sr_duration r")
  case None
  then show ?thesis by (simp add: start_onSuccess_def initial_timeLeft_def)
next
  case (Some d)
  show ?thesis
  proof (cases "d = 0")
    case True
    with Some show ?thesis by (simp add: start_onSuccess_def initial_timeLeft_def)
  next
    case False
    with Some show ?thesis by (simp add: start_onSuccess_def initial_timeLeft_def)
  qed
qed

text \<open>The theorem at a duration of 90 minutes: the countdown starts at 5400 seconds.\<close>

theorem countdown_initialised_witness:
  "timeLeft (fst (start_onSuccess
      \<lparr> sr_attempt_id = Some ''a1'', sr_duration = Some 90, sr_questions = [] \<rparr> initial_state))
   = 5400"
  using countdown_initialised
    [of "\<lparr> sr_attempt_id = Some ''a1'', sr_duration = Some 90, sr_questions = [] \<rparr>" initial_state]
  by simp

text \<open>
  Claim C3 as stated fails at a returned duration of 0 minutes: the field is there, and the
  countdown starts at 3600 seconds, not at 0 times 60.
\<close>

theorem zero_duration_counterexample:
  "sr_duration \<lparr> sr_attempt_id = Some ''a1'', sr_duration = Some 0, sr_questions = [] \<rparr> = Some 0 \<and>
   timeLeft (fst (start_onSuccess
      \<lparr> sr_attempt_id = Some ''a1'', sr_duration = Some 0, sr_questions = [] \<rparr> initial_state))
   = 3600 \<and> (3600::int) \<noteq> 0 * 60"
  by (simp add: start_onSuccess_def initial_timeLeft_def)

subsection \<open>The submitted responses\<close>

lemma find_question_distinct:
  "distinct (map q_id qs) \<Longrightarrow> q \<in> set qs \<Longrightarrow> find_question qs (q_id q) = Some q"
  unfolding find_question_def
  by (induction qs) (auto simp: image_iff)

lemma filter_build_responses:
  "distinct (map fst ans) \<Longrightarrow>
   filter (\<lambda>r. questionId r = k) (build_responses qs ans) =
     (case map_of ans k of None \<Rightarrow> [] | Some a \<Rightarrow> [to_response qs (k, a)])"
proof (induction ans)
  case Nil
  then show ?case by (simp add: build_responses_def)
next
  case (Cons e ans)
  obtain k' a' where e: "e = (k', a')" by (cases e)
  have qid: "questionId (to_response qs (k', a')) = k'" by (simp add: to_response_def)
  show ?case
  proof (cases "k' = k")
    case True
    then have "k \<notin> fst ` set ans" using Cons.prems e by auto
    then have "map_of ans k = None" by (simp add: map_of_eq_None_iff)
    with Cons True e qid show ?thesis by (simp add: build_responses_def)
  next
    case False
    with Cons e qid show ?thesis by (simp add: build_responses_def)
  qed
qed

lemma to_array_cases: "to_array a = (case a of JArr xs \<Rightarrow> xs | _ \<Rightarrow> [a])"
  by (cases a) simp_all

text \<open>
  Claim C4. The answers object has distinct keys and the questions have distinct identifiers.
  Then the responses about a question \<open>q\<close> of the list are: none when \<open>q\<close> has no answer; and
  when its answer is \<open>a\<close>, exactly one, which for an \<^verbatim>\<open>ESSAY\<close> or \<^verbatim>\<open>SHORT_ANSWER\<close> question has
  no selected options, the essay answer \<open>a\<close> and time spent 0, and for a question of any other
  type has as selected options the elements of \<open>a\<close> when \<open>a\<close> is an array and \<open>a\<close> alone when it
  is not, no essay answer and time spent 0. The responses are those of the answered keys, in
  their order.
\<close>

theorem responses_per_question:
  assumes "distinct (map fst ans)" and "distinct (map q_id qs)" and "q \<in> set qs"
  shows "filter (\<lambda>r. questionId r = q_id q) (build_responses qs ans) =
           (case map_of ans (q_id q) of
              None \<Rightarrow> []
            | Some a \<Rightarrow>
                [if q_type q = ''ESSAY'' \<or> q_type q = ''SHORT_ANSWER''
                 then \<lparr> questionId = q_id q, selectedOptions = [], essayAnswer = Some a,
                        timeSpent = 0 \<rparr>
                 else \<lparr> questionId = q_id q,
                        selectedOptions = (case a of JArr xs \<Rightarrow> xs | _ \<Rightarrow> [a]),
                        essayAnswer = None, timeSpent = 0 \<rparr>]) \<and>
         map questionId (build_responses qs ans) = map fst ans"
proof
  have "find_question qs (q_id q) = Some q" using assms by (simp add: find_question_distinct)
  then show "filter (\<lambda>r. questionId r = q_id q) (build_responses qs ans) =
           (case map_of ans (q_id q) of
              None \<Rightarrow> []
            | Some a \<Rightarrow>
                [if q_type q = ''ESSAY'' \<or> q_type q = ''SHORT_ANSWER''
                 then \<lparr> questionId = q_id q, selectedOptions = [], essayAnswer = Some a,
                        timeSpent = 0 \<rparr>
                 else \<lparr> questionId = q_id q,
                        selectedOptions = (case a of JArr xs \<Rightarrow> xs | _ \<Rightarrow> [a]),
                        essayAnswer = None, timeSpent = 0 \<rparr>])"
    using assms(1)
    by (simp add: filter_build_responses to_response_def is_text_question_def to_array_cases
          split: option.splits)
  show "map questionId (build_responses qs ans) = map fst ans"
    by (induction ans) (auto simp: build_responses_def to_response_def)
qed

text \<open>
  The theorem at the two example questions. With the answers \<^verbatim>\<open>{q1: [0, 2], q2: "text"}\<close> the
  response about the multiple-choice question \<^verbatim>\<open>q1\<close> has the selected options 0 and 2, not
  the array of that array, and the response about the essay question \<^verbatim>\<open>q2\<close> has the essay
  answer. With the answers \<^verbatim>\<open>{q1: 2}\<close> the one response is that of \<^verbatim>\<open>q1\<close>, with the selected
  option 2, and no response is about \<^verbatim>\<open>q2\<close>.
\<close>

theorem responses_per_question_witness:
  "filter (\<lambda>r. questionId r = ''q1'')
     (build_responses example_questions
        [(''q1'', JArr [JNum 0, JNum 2]), (''q2'', JStr ''text'')]) =
     [\<lparr> questionId = ''q1'', selectedOptions = [JNum 0, JNum 2], essayAnswer = None,
        timeSpent = 0 \<rparr>] \<and>
   filter (\<lambda>r. questionId r = ''q2'')
     (build_responses example_questions
        [(''q1'', JArr [JNum 0, JNum 2]), (''q2'', JStr ''text'')]) =
     [\<lparr> questionId = ''q2'', selectedOptions = [], essayAnswer = Some (JStr ''text''),
        timeSpent = 0 \<rparr>] \<and>
   filter (\<lambda>r. questionId r = ''q1'') (build_responses example_questions [(''q1'', JNum 2)]) =
     [\<lparr> questionId = ''q1'', selectedOptions = [JNum 2], essayAnswer = None, timeSpent = 0 \<rparr>] \<and>
   filter (\<lambda>r. questionId r = ''q2'') (build_responses example_questions [(''q1'', JNum 2)]) = [] \<and>
   map questionId (build_responses example_questions [(''q1'', JNum 2)]) = [''q1'']"
proof -
  let ?q1 = "\<lparr> q_id = ''q1'', q_type = ''MULTIPLE_CHOICE'' \<rparr>"
  let ?q2 = "\<lparr> q_id = ''q2'', q_type = ''ESSAY'' \<rparr>"
  have d1: "distinct (map fst [(''q1'', JArr [JNum 0, JNum 2]), (''q2'', JStr ''text'')])"
    by simp
  have d2: "distinct (map fst [(''q1'', JNum 2)])" by simp
  have dq: "distinct (map q_id example_questions)" by (simp add: example_questions_def)
  have m1: "?q1 \<in> set example_questions" by (simp add: example_questions_def)
  have m2: "?q2 \<in> set example_questions" by (simp add: example_questions_def)
  show ?thesis
    using responses_per_question [OF d1 dq m1] responses_per_question [OF d1 dq m2]
          responses_per_question [OF d2 dq m1] responses_per_question [OF d2 dq m2]
    by simp
qed

subsection \<open>Attempts exceeded\<close>

text \<open>
  Claim C6. Let the exam's attempts information report that the exam cannot be taken. Then the
  effect that starts attempts issues no start request, and the view, once the exam is loaded
  without error, is the exceeded one. When the exam has its identifier and no attempt has
  been started, the effect shows the notice and schedules, 3000 milliseconds later, the
  navigation to \<^verbatim>\<open>/student/tests\<close>, and nothing else.
\<close>

theorem exceeded_attempts_never_start:
  assumes "attemptsInfo ex = Some ai" and "canTakeExam ai \<noteq> Some True"
  shows "filter is_start_request (attempt_start_effect ex aid) = [] \<and>
         render_view False False ex s = ExceededView \<and>
         (\<forall>eid. exam_id ex = Some eid \<and> eid \<noteq> [] \<and> \<not> active aid \<longrightarrow>
            attempt_start_effect ex aid =
              [ToastErrorFor (exceeded_message ai) 5000,
               SetTimeout 3000 (Navigate ''/student/tests'')])"
  using assms
  by (auto simp: attempt_start_effect_def render_view_def is_start_request_def split: option.splits)

text \<open>The theorem at an exam whose three attempts are all used.\<close>

theorem exceeded_attempts_never_start_witness:
  "filter is_start_request
     (attempt_start_effect
        \<lparr> exam_id = Some ''e1'',
          attemptsInfo = Some \<lparr> canTakeExam = Some False, attemptsUsed = 3, attemptsAllowed = 3 \<rparr> \<rparr>
        None) = [] \<and>
   render_view False False
     \<lparr> exam_id = Some ''e1'',
       attemptsInfo = Some \<lparr> canTakeExam = Some False, attemptsUsed = 3, attemptsAllowed = 3 \<rparr> \<rparr>
     initial_state = ExceededView \<and>
   attempt_start_effect
     \<lparr> exam_id = Some ''e1'',
       attemptsInfo = Some \<lparr> canTakeExam = Some False, attemptsUsed = 3, attemptsAllowed = 3 \<rparr> \<rparr>
     None =
     [ToastErrorFor
        ''You have used all 3/3 attempts for this exam. No more attempts allowed.'' 5000,
      SetTimeout 3000 (Navigate ''/student/tests'')]"
proof -
  let ?ai = "\<lparr> canTakeExam = Some False, attemptsUsed = 3, attemptsAllowed = 3 \<rparr>"
  let ?ex = "\<lparr> exam_id = Some ''e1'', attemptsInfo = Some ?ai \<rparr>"
  have h1: "attemptsInfo ?ex = Some ?ai" by simp
  have h2: "canTakeExam ?ai \<noteq> Some True" by simp
  show ?thesis
    using exceeded_attempts_never_start [OF h1 h2, of None initial_state]
    by (simp add: exceeded_message_def digit_char_def is_start_request_def)
qed

subsection \<open>Navigation and answers\<close>

text \<open>
  Claim C8. For a list of questions and an index within \<open>[0, length - 1]\<close> (so the list is not
  empty), the index after Previous, which is \<open>max 0 (index - 1)\<close>, the index after Next, which is
  \<open>min (length - 1) (index + 1)\<close>, and the index after any button of the navigation grid are
  again within \<open>[0, length - 1]\<close>.
\<close>

theorem navigation_stays_in_bounds:
  assumes "in_bounds qs i"
  shows "in_bounds qs (previous_question i) \<and> previous_question i = max 0 (i - 1) \<and>
         in_bounds qs (next_question qs i) \<and>
         next_question qs i = min (int (length qs) - 1) (i + 1) \<and>
         (\<forall>j \<in> set (grid_indices qs). in_bounds qs (jump_to j i))"
  using assms
  by (auto simp: in_bounds_def previous_question_def next_question_def grid_indices_def
        jump_to_def)

text \<open>
  The theorem at the two example questions and the last index: Next stays there, Previous goes
  to the first question, and the grid leads to 0 and 1.
\<close>

theorem navigation_stays_in_bounds_witness:
  "in_bounds example_questions 1 \<and> next_question example_questions 1 = 1 \<and>
   previous_question 1 = 0 \<and> previous_question 0 = 0 \<and> grid_indices example_questions = [0, 1]"
proof -
  have h: "in_bounds example_questions 1" by (simp add: in_bounds_def example_questions_def)
  have g: "grid_indices example_questions = [0, 1]"
    by (simp add: grid_indices_def example_questions_def upt_rec)
  show ?thesis
    using h g navigation_stays_in_bounds [OF h]
    by (simp add: example_questions_def previous_question_def)
qed

lemma obj_get_obj_set: "obj_get (obj_set key v obj) k = (if k = key then v else obj_get obj k)"
  by (induction obj) (auto simp: obj_get_def)

text \<open>
  Claim C9. Recording an answer for the question with identifier \<open>key\<close>, whether by choosing an
  option, by typing into the essay or short-answer text area, or by typing into a blank,
  leaves the stored answer of every other key as it was, stores the new answer under \<open>key\<close>,
  and does nothing else: no request is made.
\<close>

theorem answer_updates_one_entry:
  assumes "k \<noteq> key"
  shows "obj_get (fst (handleAnswerSelect ans key a)) k = obj_get ans k \<and>
         obj_get (fst (handleAnswerSelect ans key a)) key = JNum a \<and>
         snd (handleAnswerSelect ans key a) = [] \<and>
         obj_get (fst (text_onChange ans key v)) k = obj_get ans k \<and>
         obj_get (fst (text_onChange ans key v)) key = JStr v \<and>
         snd (text_onChange ans key v) = [] \<and>
         (\<forall>ans' es. blank_onChange ans key i v = Inr (ans', es) \<longrightarrow>
            obj_get ans' k = obj_get ans k \<and> es = [])"
  using assms
  by (auto simp: handleAnswerSelect_def text_onChange_def blank_onChange_def obj_get_obj_set
           split: jsval.splits)

text \<open>
  The theorem at the answers \<^verbatim>\<open>{q1: 2}\<close>: typing an essay for \<^verbatim>\<open>q2\<close>, or filling the second
  blank of \<^verbatim>\<open>q2\<close>, leaves the answer of \<^verbatim>\<open>q1\<close> in place.
\<close>

theorem answer_updates_one_entry_witness:
  "text_onChange [(''q1'', JNum 2)] ''q2'' ''abc'' =
     ([(''q1'', JNum 2), (''q2'', JStr ''abc'')], []) \<and>
   blank_onChange [(''q1'', JNum 2)] ''q2'' 1 ''x'' =
     Inr ([(''q1'', JNum 2), (''q2'', JArr [JUndefined, JStr ''x''])], []) \<and>
   obj_get (fst (handleAnswerSelect [(''q1'', JNum 2)] ''q2'' 0)) ''q1'' = JNum 2"
proof -
  have h: "''q1'' \<noteq> ''q2''" by simp
  show ?thesis
    using answer_updates_one_entry [OF h, of "[(''q1'', JNum 2)]" 0 "''abc''" 1]
    by (simp add: text_onChange_def blank_onChange_def obj_get_def js_or_def arr_set_def)
qed

subsection \<open>After the submission\<close>

text \<open>
  Claim C10. Let the response to a successful submission carry an attempt identifier. Then
  every timeout the success handler sets is one of 3000 milliseconds that navigates to the
  results route of that returned identifier, whatever attempt identifier the component state
  holds; and the handler ends by setting it, whenever the response has no results or its
  percentage is a number.
\<close>

theorem results_route_uses_returned_id:
  assumes "sub_attempt_id r = Some aid" and "aid \<noteq> []"
  shows "(\<forall>d a. SetTimeout d a \<in> set (snd (submit_onSuccess r s)) \<longrightarrow>
            d = 3000 \<and> a = Navigate (''/exam/results/'' @ aid)) \<and>
         (\<not> truthy (sub_results r) \<or>
          is_number (js_or (js_prop (sub_results r) ''percentage'') (JNum 0)) \<longrightarrow>
            last (snd (submit_onSuccess r s)) =
              SetTimeout 3000 (Navigate (''/exam/results/'' @ aid)))"
  using assms by (auto simp: submit_onSuccess_def after_submit_def)

text \<open>
  The theorem at a response that returns the identifier \<^verbatim>\<open>a2\<close> with a percentage of 80, in the
  started session, whose state holds the identifier \<^verbatim>\<open>a1\<close>.
\<close>

theorem results_route_uses_returned_id_witness:
  "attemptId started_state = Some ''a1'' \<and>
   snd (submit_onSuccess
          \<lparr> sub_attempt_id = Some ''a2'', sub_results = JObj [(''percentage'', JNum 80)] \<rparr>
          started_state) =
     [ToastSuccess ''Exam submitted successfully!'',
      ToastScore (JObj [(''percentage'', JNum 80)]) 4000,
      SetTimeout 3000 (Navigate ''/exam/results/a2'')]"
proof -
  let ?r = "\<lparr> sub_attempt_id = Some ''a2'', sub_results = JObj [(''percentage'', JNum 80)] \<rparr>"
  have h1: "sub_attempt_id ?r = Some ''a2''" by simp
  have h2: "''a2'' \<noteq> []" by simp
  show ?thesis
    using results_route_uses_returned_id [OF h1 h2, of started_state]
    by (simp add: started_state_eq submit_onSuccess_def after_submit_def js_or_def is_number_def)
qed

end
